theory Spec2Isabelle
  imports Complex_Main "HOL-Library.Sublist"
begin

section \<open>Data model of \<open>src/app/page.tsx\<close>\<close>

text \<open>
  The component \<open>Home\<close> keeps its data in React state cells and fetches a market list
  with the recursive asynchronous function \<open>fetchCryptoData(retry, useBackup)\<close>. The
  model below follows the source function by function. State cells are the fields of a
  record that is passed through and returned; every \<open>throw\<close> is a value that reaches
  the model of the \<open>catch\<close> block; the network and the clock are inputs; \<open>sleep\<close> and
  the network call are recorded in an event trace in the order in which they happen.
  A string is a list of code units below 256 (the ASCII and Latin-1 range), which is
  what the type \<open>char\<close> holds. \<open>console.error\<close> is not modelled.
\<close>

record cryptocurrency =
  id_field :: string
  symbol :: string
  name :: string
  image_field :: string
  current_price :: real
  price_change_percentage_24h :: real
  market_cap :: real
  total_volume :: real
  market_cap_rank :: real
  high_24h :: real
  low_24h :: real
  circulating_supply :: real

definition INITIAL_RETRY_DELAY :: nat where
  "INITIAL_RETRY_DELAY = 2000"

definition MAX_RETRIES :: nat where
  "MAX_RETRIES = 5"

text \<open>
  The state cells written by \<open>fetchCryptoData\<close>. \<open>error\<close> is \<open>string | null\<close>,
  \<open>lastUpdateTime\<close> is \<open>Date | null\<close> (a date is a number of milliseconds).
\<close>

record ui_state =
  cryptocurrencies :: "cryptocurrency list"
  loading :: bool
  error :: "string option"
  retryCount :: nat
  lastUpdateTime :: "nat option"
  isUsingBackupAPI :: bool

text \<open>Lines 29 to 42: the initial values of these cells.\<close>

definition initial_state :: ui_state where
  "initial_state =
     \<lparr>cryptocurrencies = [], loading = True, error = None, retryCount = 0,
      lastUpdateTime = None, isUsingBackupAPI = False\<rparr>"

text \<open>
  What one call of \<open>fetchWithTimeout\<close> can deliver. The promise is rejected
  (with the \<open>AbortError\<close> of the 20000 ms timer, with another \<open>Error\<close> carrying a
  message, or with a value that is no \<open>Error\<close>), or it yields a response with a status
  and a body. Of a body the code only uses: whether it parses as JSON (if not,
  \<open>response.json()\<close> throws an error with some message), whether the parsed value is an
  array (and then its elements), and, for an object, its \<open>error\<close> member: \<open>Some e\<close>
  when the member is truthy, \<open>e\<close> being the message that \<open>new Error\<close> makes of it, and
  \<open>None\<close> when the member is absent or falsy (\<open>0\<close>, \<open>false\<close>, \<open>null\<close>, the empty
  string).
\<close>

datatype exc = AbortError | Error string | NonError

datatype body =
    Unparseable string
  | JsonArray "cryptocurrency list"
  | JsonObject "string option"
  | JsonOther

datatype fetch_result = Rejected exc | Response nat body

text \<open>\<open>response.ok\<close>: the status is in the range 200 to 299.\<close>

definition ok :: "nat \<Rightarrow> bool" where
  "ok status \<longleftrightarrow> 200 \<le> status \<and> status \<le> 299"

datatype event = Sleep nat | Fetch bool nat

text \<open>
  \<open>Sleep ms\<close> is \<open>await sleep(ms)\<close>; \<open>Fetch useBackup retry\<close> is the network call
  made by the invocation \<open>fetchCryptoData(retry, useBackup)\<close>.
\<close>

subsection \<open>Strings\<close>

fun startsWith :: "string \<Rightarrow> string \<Rightarrow> bool" where
  "startsWith s [] = True"
| "startsWith [] (c # cs) = False"
| "startsWith (d # ds) (c # cs) = (d = c \<and> startsWith ds cs)"

text \<open>\<open>s.includes(t)\<close>: \<open>t\<close> occurs in \<open>s\<close> as a contiguous substring.\<close>

fun includes_str :: "string \<Rightarrow> string \<Rightarrow> bool" where
  "includes_str [] t = (t = [])"
| "includes_str (c # cs) t = (startsWith (c # cs) t \<or> includes_str cs t)"

definition digit :: "nat \<Rightarrow> char" where
  "digit d = ''0123456789'' ! d"

text \<open>The decimal rendering of a natural number inside a template literal.\<close>

function show_nat :: "nat \<Rightarrow> string" where
  "show_nat n = (if n < 10 then [digit n] else show_nat (n div 10) @ [digit (n mod 10)])"
  by pat_completeness auto
termination
  by (relation "measure (\<lambda>n. n)") auto

declare show_nat.simps [simp del]

section \<open>One invocation of \<open>fetchCryptoData\<close>\<close>

text \<open>
  Lines 78 to 82: the delay of this invocation and, for \<open>retry > 0\<close>, the notice
  and the sleep before the request. (\<open>delay/1000\<close> is a whole number, since
  \<open>INITIAL_RETRY_DELAY\<close> is 2000.)
\<close>

definition delay :: "nat \<Rightarrow> nat" where
  "delay retry = (if retry > 0 then INITIAL_RETRY_DELAY * 2 ^ (retry - 1) else 0)"

definition retrying_message :: "nat \<Rightarrow> string" where
  "retrying_message retry =
     ''Retrying in '' @ show_nat (delay retry div 1000) @ '' seconds... (Attempt '' @
     show_nat retry @ ''/'' @ show_nat MAX_RETRIES @ '')''"

definition before_request :: "nat \<Rightarrow> ui_state \<Rightarrow> ui_state \<times> event list" where
  "before_request retry st =
     (if retry > 0
      then (st\<lparr>error := Some (retrying_message retry)\<rparr>, [Sleep (delay retry)])
      else (st, []))"

text \<open>
  Lines 109 to 119: the message of a response that is not ok. It is the status-based
  text unless the body parses to a value with a truthy \<open>error\<close> member.
\<close>

definition http_error_message :: "nat \<Rightarrow> body \<Rightarrow> string" where
  "http_error_message status b =
     (case b of
        JsonObject (Some e) \<Rightarrow> e
      | _ \<Rightarrow> ''HTTP error! status: '' @ show_nat status)"

text \<open>
  How the \<open>try\<close> block ends: it runs to its end, it returns the promise of a
  recursive call, or it throws.
\<close>

datatype try_result = Completed | Recurse nat bool | Thrown exc

text \<open>
  Lines 95 to 161, after the request has delivered \<open>r\<close>; \<open>now\<close> is the value of
  \<open>new Date()\<close>.
\<close>

definition try_block ::
  "nat \<Rightarrow> bool \<Rightarrow> nat \<Rightarrow> fetch_result \<Rightarrow> ui_state \<Rightarrow> ui_state \<times> event list \<times> try_result"
where
  "try_block retry useBackup now r st =
     (case r of
        Rejected e \<Rightarrow> (st, [], Thrown e)
      | Response status b \<Rightarrow>
          if \<not> ok status then
            if status = 429 then
              if retry < MAX_RETRIES
              then (st\<lparr>retryCount := retry + 1\<rparr>, [Sleep 5000], Recurse (retry + 1) useBackup)
              else (st, [], Thrown (Error ''Rate limit exceeded. Please try again in a few minutes.''))
            else if status = 403 then
              if \<not> useBackup
              then (st\<lparr>isUsingBackupAPI := True\<rparr>, [], Recurse 0 True)
              else (st, [], Thrown (Error ''Access denied. Please check your API permissions.''))
            else if status = 404 then
              (st, [], Thrown (Error ''The requested data is not available.''))
            else (st, [], Thrown (Error (http_error_message status b)))
          else
            (case b of
               Unparseable m \<Rightarrow> (st, [], Thrown (Error m))
             | JsonArray data \<Rightarrow>
                 if data = [] then (st, [], Thrown (Error ''No cryptocurrency data available''))
                 else (st\<lparr>cryptocurrencies := data, error := None, loading := False,
                          retryCount := 0, lastUpdateTime := Some now,
                          isUsingBackupAPI := useBackup\<rparr>, [], Completed)
             | _ \<Rightarrow> (st, [], Thrown (Error ''Invalid data format received from API''))))"

text \<open>
  How an invocation ends: the cycle has settled, with the data stored (\<open>Succeeded\<close>, the
  \<open>try\<close> block ran to its end) or with a final error message (\<open>Failed\<close>, the \<open>catch\<close>
  block ran to its end), or the invocation returns a recursive call.
\<close>

datatype settlement = Succeeded | Failed string

datatype next_step = Settled settlement | Again nat bool

definition noRetryErrors :: "string list" where
  "noRetryErrors = [''Invalid data'', ''Rate limit exceeded'', ''Access denied'', ''API permissions'']"

text \<open>Lines 176 to 190: the end of the \<open>catch\<close> block, once the message is known.\<close>

definition report_error :: "nat \<Rightarrow> bool \<Rightarrow> string \<Rightarrow> ui_state \<Rightarrow> ui_state \<times> next_step" where
  "report_error retry useBackup errorMessage st =
     (let st' = st\<lparr>error := Some errorMessage, loading := False\<rparr>
      in if retry < MAX_RETRIES \<and> \<not> list_ex (\<lambda>e. includes_str errorMessage e) noRetryErrors
         then (st'\<lparr>retryCount := retry + 1\<rparr>, Again (retry + 1) useBackup)
         else (st', Settled (Failed errorMessage)))"

text \<open>Lines 162 to 191.\<close>

definition catch_block :: "nat \<Rightarrow> bool \<Rightarrow> exc \<Rightarrow> ui_state \<Rightarrow> ui_state \<times> next_step" where
  "catch_block retry useBackup e st =
     (case e of
        AbortError \<Rightarrow>
          if \<not> useBackup \<and> retry = 0 then (st, Again 0 True)
          else report_error retry useBackup ''Request timed out. Retrying...'' st
      | Error m \<Rightarrow> report_error retry useBackup m st
      | NonError \<Rightarrow> report_error retry useBackup ''Failed to fetch cryptocurrency data'' st)"

text \<open>
  The part of one invocation after the request: the \<open>try\<close> block and, if it throws, the
  \<open>catch\<close> block.
\<close>

definition handle :: "nat \<Rightarrow> bool \<Rightarrow> nat \<Rightarrow> fetch_result \<Rightarrow> ui_state \<Rightarrow> ui_state \<times> event list \<times> next_step" where
  "handle retry useBackup now r st =
     (case try_block retry useBackup now r st of
        (st', ev, Completed) \<Rightarrow> (st', ev, Settled Succeeded)
      | (st', ev, Recurse retry' useBackup') \<Rightarrow> (st', ev, Again retry' useBackup')
      | (st', ev, Thrown e) \<Rightarrow>
          (case catch_block retry useBackup e st' of (st'', nxt) \<Rightarrow> (st'', ev, nxt)))"

section \<open>A whole cycle\<close>

text \<open>
  The world outside the function: the result of the \<open>i\<close>-th network call made, and the
  clock reading while that result is handled.
\<close>

record world =
  responses :: "nat \<Rightarrow> fetch_result"
  dates :: "nat \<Rightarrow> nat"

text \<open>
  What a cycle leaves behind: the state cells, the events in order, how it settled, the
  \<open>useBackup\<close> argument of the invocation that settled it, and the index of the first
  network call it has not used.
\<close>

record cycle_result =
  ui :: ui_state
  trace :: "event list"
  final :: settlement
  endpoint :: bool
  used :: nat

text \<open>The result of a callee, seen from a caller that produced the events \<open>es\<close> first.\<close>

definition preceded_by :: "event list \<Rightarrow> cycle_result \<Rightarrow> cycle_result" where
  "preceded_by es res = res\<lparr>trace := es @ trace res\<rparr>"

text \<open>
  \<open>fetchCryptoData(retry, useBackup)\<close>, lines 76 to 192, called when \<open>i\<close> network
  calls have been made before. Every recursive call of the source is a tail call
  (\<open>return fetchCryptoData(...)\<close>), so the events of the callee follow those of the
  caller.
\<close>

function fetchCryptoData :: "world \<Rightarrow> nat \<Rightarrow> nat \<Rightarrow> bool \<Rightarrow> ui_state \<Rightarrow> cycle_result" where
  "fetchCryptoData w i retry useBackup st =
     (case before_request retry st of
        (st1, ev1) \<Rightarrow>
          (case handle retry useBackup (dates w i) (responses w i) st1 of
             (st2, ev2, Settled s) \<Rightarrow>
               \<lparr>ui = st2, trace = ev1 @ [Fetch useBackup retry] @ ev2, final = s,
                endpoint = useBackup, used = Suc i\<rparr>
           | (st2, ev2, Again retry' useBackup') \<Rightarrow>
               preceded_by (ev1 @ [Fetch useBackup retry] @ ev2)
                 (fetchCryptoData w (Suc i) retry' useBackup' st2)))"
  by pat_completeness auto
termination
proof (relation "measure (\<lambda>(w, i, retry, useBackup, st).
         (if useBackup then 0 else MAX_RETRIES + 1) + (MAX_RETRIES - retry))")
  show "wf (measure (\<lambda>(w, i, retry, useBackup, st).
         (if useBackup then 0 else MAX_RETRIES + 1) + (MAX_RETRIES - retry)))"
    by simp
next
  fix w :: world and i retry :: nat and useBackup :: bool and st st1 :: ui_state
    and ev1 :: "event list" and st2 :: ui_state and y :: "event list \<times> next_step"
    and ev2 :: "event list" and nxt :: next_step and retry' :: nat and useBackup' :: bool
  assume "(st1, ev1) = before_request retry st"
    and h: "(st2, y) = handle retry useBackup (dates w i) (responses w i) st1"
    and y: "(ev2, nxt) = y" and n: "nxt = Again retry' useBackup'"
  from h y n have "handle retry useBackup (dates w i) (responses w i) st1 =
      (st2, ev2, Again retry' useBackup')"
    by simp
  then have "(useBackup' = useBackup \<and> retry' = retry + 1 \<and> retry < MAX_RETRIES) \<or>
         (\<not> useBackup \<and> useBackup' \<and> retry' = 0)"
    by (auto simp: handle_def try_block_def catch_block_def report_error_def Let_def
        split: fetch_result.splits body.splits exc.splits if_splits option.splits)
  then show "((w, Suc i, retry', useBackup', st2), (w, i, retry, useBackup, st))
        \<in> measure (\<lambda>(w, i, retry, useBackup, st).
            (if useBackup then 0 else MAX_RETRIES + 1) + (MAX_RETRIES - retry))"
    by (auto simp: MAX_RETRIES_def)
qed

declare fetchCryptoData.simps [simp del]

text \<open>
  The same function read one invocation at a time: what follows the request, given the
  outcome of \<open>handle\<close>. It is used to run the function on given inputs.
\<close>

fun continue ::
  "world \<Rightarrow> nat \<Rightarrow> nat \<Rightarrow> bool \<Rightarrow> event list \<Rightarrow> ui_state \<times> event list \<times> next_step \<Rightarrow> cycle_result"
where
  "continue w i retry useBackup ev1 (st2, ev2, Settled s) =
     \<lparr>ui = st2, trace = ev1 @ [Fetch useBackup retry] @ ev2, final = s,
      endpoint = useBackup, used = Suc i\<rparr>"
| "continue w i retry useBackup ev1 (st2, ev2, Again retry' useBackup') =
     preceded_by (ev1 @ [Fetch useBackup retry] @ ev2)
       (fetchCryptoData w (Suc i) retry' useBackup' st2)"

subsection \<open>Inputs for examples\<close>

text \<open>One well-formed entry of the payload, and a world that answers the first request
  with \<open>r0\<close> and every later one with \<open>r\<close>; the clock shows the index of the request.\<close>

definition sample_asset :: cryptocurrency where
  "sample_asset =
     \<lparr>id_field = ''bitcoin'', symbol = ''btc'', name = ''Bitcoin'', image_field = ''btc.png'',
      current_price = 1, price_change_percentage_24h = 0, market_cap = 1, total_volume = 1,
      market_cap_rank = 1, high_24h = 1, low_24h = 1, circulating_supply = 1\<rparr>"

definition first_then :: "fetch_result \<Rightarrow> fetch_result \<Rightarrow> world" where
  "first_then r0 r = \<lparr>responses = (\<lambda>i. if i = 0 then r0 else r), dates = (\<lambda>i. i)\<rparr>"

section \<open>Starting a cycle\<close>



text \<open>The \<open>useBackup\<close> arguments of the network calls of a trace, in order.\<close>

fun endpoints :: "event list \<Rightarrow> bool list" where
  "endpoints [] = []"
| "endpoints (Sleep ms # es) = endpoints es"
| "endpoints (Fetch useBackup retry # es) = useBackup # endpoints es"

text \<open>The \<open>retry\<close> arguments of the network calls of a trace, in order.\<close>

fun attempts :: "event list \<Rightarrow> nat list" where
  "attempts [] = []"
| "attempts (Sleep ms # es) = attempts es"
| "attempts (Fetch useBackup retry # es) = retry # attempts es"

text \<open>
  The time slept before each network call of a trace, since the call before it (or since
  the start of the trace).
\<close>

fun waits_from :: "nat \<Rightarrow> event list \<Rightarrow> nat list" where
  "waits_from a [] = []"
| "waits_from a (Sleep ms # es) = waits_from (a + ms) es"
| "waits_from a (Fetch useBackup retry # es) = a # waits_from 0 es"

definition waits :: "event list \<Rightarrow> nat list" where
  "waits es = waits_from 0 es"


section \<open>The watchlist\<close>

text \<open>
  A JavaScript \<open>Set\<close> of strings is a list without duplicates in insertion order:
  \<open>delete\<close> removes the element, \<open>add\<close> of a new element appends it. Lines 46 to 57:
  the updater computes the new set and writes its elements under the key
  \<open>watchlist\<close> of the local storage.
\<close>

record watch_state =
  watchlist :: "string list"
  stored :: "string list option"

definition toggleWatchlist :: "string \<Rightarrow> watch_state \<Rightarrow> watch_state" where
  "toggleWatchlist id' ws =
     (let prev = watchlist ws;
          newSet = (if id' \<in> set prev then removeAll id' prev else prev @ [id'])
      in \<lparr>watchlist = newSet, stored = Some newSet\<rparr>)"

section \<open>The search filter\<close>










section \<open>Unfolding a cycle\<close>

lemma fetch_unfold:
  "fetchCryptoData w i retry useBackup st =
     continue w i retry useBackup (snd (before_request retry st))
       (handle retry useBackup (dates w i) (responses w i) (fst (before_request retry st)))"
proof (cases "handle retry useBackup (dates w i) (responses w i) (fst (before_request retry st))")
  case (fields st2 ev2 nxt)
  then show ?thesis
    by (subst fetchCryptoData.simps) (cases nxt; auto split: prod.splits)
qed

lemmas run_simps =
  fetch_unfold before_request_def handle_def try_block_def catch_block_def report_error_def
  ok_def MAX_RETRIES_def noRetryErrors_def initial_state_def delay_def INITIAL_RETRY_DELAY_def
  preceded_by_def http_error_message_def first_then_def sample_asset_def

lemma preceded_by_simps [simp]:
  "ui (preceded_by es res) = ui res"
  "trace (preceded_by es res) = es @ trace res"
  "final (preceded_by es res) = final res"
  "endpoint (preceded_by es res) = endpoint res"
  "used (preceded_by es res) = used res"
  by (simp_all add: preceded_by_def)

lemma fetch_Settled:
  assumes "handle retry useBackup (dates w i) (responses w i) (fst (before_request retry st)) =
           (st2, ev2, Settled s)"
  shows "fetchCryptoData w i retry useBackup st =
     \<lparr>ui = st2, trace = snd (before_request retry st) @ [Fetch useBackup retry] @ ev2, final = s,
      endpoint = useBackup, used = Suc i\<rparr>"
  using assms by (simp add: fetch_unfold)

lemma fetch_Again:
  assumes "handle retry useBackup (dates w i) (responses w i) (fst (before_request retry st)) =
           (st2, ev2, Again retry' useBackup')"
  shows "fetchCryptoData w i retry useBackup st =
     preceded_by (snd (before_request retry st) @ [Fetch useBackup retry] @ ev2)
       (fetchCryptoData w (Suc i) retry' useBackup' st2)"
  using assms by (simp add: fetch_unfold)

text \<open>Every invocation makes its request after its own sleep, whatever comes back.\<close>

lemma trace_starts:
  "\<exists>rest. trace (fetchCryptoData w i retry useBackup st) =
     snd (before_request retry st) @ Fetch useBackup retry # rest"
proof (cases "handle retry useBackup (dates w i) (responses w i) (fst (before_request retry st))")
  case (fields st2 ev2 nxt)
  then show ?thesis
    by (cases nxt) (simp_all add: fetch_unfold)
qed

text \<open>
  An invocation that ends in a recursive call with \<open>retry + 1\<close>: the callee sleeps
  its backoff delay and then makes its request.
\<close>

lemma trace_retry:
  assumes h: "handle retry useBackup (dates w i) (responses w i) (fst (before_request retry st)) =
              (st2, ev2, Again (retry + 1) useBackup)"
  shows "\<exists>rest. trace (fetchCryptoData w i retry useBackup st) =
     snd (before_request retry st) @ [Fetch useBackup retry] @ ev2 @
     [Sleep (INITIAL_RETRY_DELAY * 2 ^ retry), Fetch useBackup (retry + 1)] @ rest"
proof -
  obtain rest where "trace (fetchCryptoData w (Suc i) (retry + 1) useBackup st2) =
     snd (before_request (retry + 1) st2) @ Fetch useBackup (retry + 1) # rest"
    using trace_starts by blast
  then show ?thesis
    by (simp add: fetch_Again [OF h] before_request_def delay_def)
qed

section \<open>What one invocation does with each outcome\<close>

lemma handle_Again:
  assumes "handle retry useBackup now r st = (st', ev, Again retry' useBackup')"
  shows "(useBackup' = useBackup \<and> retry' = retry + 1 \<and> retry < MAX_RETRIES) \<or>
         (\<not> useBackup \<and> useBackup' \<and> retry' = 0)"
  using assms
  by (auto simp: handle_def try_block_def catch_block_def report_error_def Let_def
      split: fetch_result.splits body.splits exc.splits if_splits option.splits)

lemma handle_events:
  assumes "handle retry useBackup now r st = (st', ev, nxt)"
  shows "ev = [] \<or> ev = [Sleep 5000]"
  using assms
  by (auto simp: handle_def try_block_def catch_block_def report_error_def Let_def
      split: fetch_result.splits body.splits exc.splits if_splits option.splits)

lemma handle_Succeeded:
  assumes "handle retry useBackup now r st = (st', ev, Settled Succeeded)"
  shows "\<exists>status data. r = Response status (JsonArray data) \<and> ok status \<and> data \<noteq> [] \<and>
     st' = st\<lparr>cryptocurrencies := data, error := None, loading := False, retryCount := 0,
              lastUpdateTime := Some now, isUsingBackupAPI := useBackup\<rparr>"
  using assms
  by (auto simp: handle_def try_block_def catch_block_def report_error_def Let_def
      split: fetch_result.splits body.splits exc.splits if_splits option.splits)

lemma handle_Failed:
  assumes "handle retry useBackup now r st = (st', ev, Settled (Failed m))"
  shows "st' = st\<lparr>error := Some m, loading := False\<rparr>"
  using assms
  by (auto simp: handle_def try_block_def catch_block_def report_error_def Let_def
      split: fetch_result.splits body.splits exc.splits if_splits option.splits)

lemma handle_Again_data:
  assumes "handle retry useBackup now r st = (st', ev, Again retry' useBackup')"
  shows "cryptocurrencies st' = cryptocurrencies st" and "lastUpdateTime st' = lastUpdateTime st"
  using assms
  by (auto simp: handle_def try_block_def catch_block_def report_error_def Let_def
      split: fetch_result.splits body.splits exc.splits if_splits option.splits)

lemma handle_404:
  "handle retry useBackup now (Response 404 b) st =
     (if retry < MAX_RETRIES
      then (st\<lparr>error := Some ''The requested data is not available.'', loading := False,
               retryCount := retry + 1\<rparr>, [], Again (retry + 1) useBackup)
      else (st\<lparr>error := Some ''The requested data is not available.'', loading := False\<rparr>, [],
            Settled (Failed ''The requested data is not available.'')))"
  by (simp add: handle_def try_block_def catch_block_def report_error_def ok_def noRetryErrors_def)

lemma handle_empty:
  "ok status \<Longrightarrow> handle retry useBackup now (Response status (JsonArray [])) st =
     (if retry < MAX_RETRIES
      then (st\<lparr>error := Some ''No cryptocurrency data available'', loading := False,
               retryCount := retry + 1\<rparr>, [], Again (retry + 1) useBackup)
      else (st\<lparr>error := Some ''No cryptocurrency data available'', loading := False\<rparr>, [],
            Settled (Failed ''No cryptocurrency data available'')))"
  by (simp add: handle_def try_block_def catch_block_def report_error_def noRetryErrors_def)

lemma handle_429:
  "retry < MAX_RETRIES \<Longrightarrow> handle retry useBackup now (Response 429 b) st =
     (st\<lparr>retryCount := retry + 1\<rparr>, [Sleep 5000], Again (retry + 1) useBackup)"
  by (simp add: handle_def try_block_def ok_def)

lemma handle_other_status:
  assumes "\<not> ok status" "status \<noteq> 429" "status \<noteq> 403" "status \<noteq> 404"
  shows "handle retry useBackup now (Response status b) st =
     (case report_error retry useBackup (http_error_message status b) st of
        (st', nxt) \<Rightarrow> (st', [], nxt))"
  using assms by (simp add: handle_def try_block_def catch_block_def)

lemma report_error_retry:
  assumes "\<forall>e \<in> set noRetryErrors. \<not> includes_str m e"
  shows "report_error retry useBackup m st =
     (if retry < MAX_RETRIES
      then (st\<lparr>error := Some m, loading := False, retryCount := retry + 1\<rparr>,
            Again (retry + 1) useBackup)
      else (st\<lparr>error := Some m, loading := False\<rparr>, Settled (Failed m)))"
  using assms by (simp add: report_error_def list_ex_iff)

lemma attempts_append [simp]: "attempts (xs @ ys) = attempts xs @ attempts ys"
  by (induction xs rule: attempts.induct) simp_all

lemma endpoints_append [simp]: "endpoints (xs @ ys) = endpoints xs @ endpoints ys"
  by (induction xs rule: endpoints.induct) simp_all

lemma before_request_quiet [simp]:
  "attempts (snd (before_request retry st)) = []"
  "endpoints (snd (before_request retry st)) = []"
  by (simp_all add: before_request_def)

lemma before_request_data [simp]:
  "cryptocurrencies (fst (before_request retry st)) = cryptocurrencies st"
  "lastUpdateTime (fst (before_request retry st)) = lastUpdateTime st"
  "isUsingBackupAPI (fst (before_request retry st)) = isUsingBackupAPI st"
  by (simp_all add: before_request_def)

lemma handle_quiet:
  assumes "handle retry useBackup now r st = (st', ev, nxt)"
  shows "attempts ev = []" and "endpoints ev = []"
  using handle_events [OF assms] by auto

section \<open>Properties of a whole cycle\<close>

lemma attempts_le:
  "retry \<le> MAX_RETRIES \<Longrightarrow>
   \<forall>n \<in> set (attempts (trace (fetchCryptoData w i retry useBackup st))). n \<le> MAX_RETRIES"
proof (induction w i retry useBackup st rule: fetchCryptoData.induct)
  case (1 w i retry useBackup st)
  obtain st2 ev2 nxt where h:
    "handle retry useBackup (dates w i) (responses w i) (fst (before_request retry st)) =
     (st2, ev2, nxt)"
    by (metis prod_cases3)
  show ?case
  proof (cases nxt)
    case (Settled s)
    with h "1.prems" show ?thesis
      by (simp add: fetch_Settled handle_quiet [OF h])
  next
    case (Again retry' useBackup')
    from h Again handle_Again have le: "retry' \<le> MAX_RETRIES"
      by fastforce
    have "\<forall>n \<in> set (attempts (trace (fetchCryptoData w (Suc i) retry' useBackup' st2))).
            n \<le> MAX_RETRIES"
      using "1.IH" [of "fst (before_request retry st)" "snd (before_request retry st)" st2
          "(ev2, nxt)" ev2 nxt retry' useBackup'] h Again le
      by simp
    with h Again "1.prems" show ?thesis
      by (simp add: fetch_Again handle_quiet [OF h])
  qed
qed

lemma attempts_length:
  "length (attempts (trace (fetchCryptoData w i retry useBackup st))) \<le>
     (if useBackup then 0 else MAX_RETRIES + 1) + (MAX_RETRIES - retry) + 1"
proof (induction w i retry useBackup st rule: fetchCryptoData.induct)
  case (1 w i retry useBackup st)
  obtain st2 ev2 nxt where h:
    "handle retry useBackup (dates w i) (responses w i) (fst (before_request retry st)) =
     (st2, ev2, nxt)"
    by (metis prod_cases3)
  show ?case
  proof (cases nxt)
    case (Settled s)
    with h show ?thesis
      by (simp add: fetch_Settled handle_quiet [OF h])
  next
    case (Again retry' useBackup')
    have ih: "length (attempts (trace (fetchCryptoData w (Suc i) retry' useBackup' st2))) \<le>
       (if useBackup' then 0 else MAX_RETRIES + 1) + (MAX_RETRIES - retry') + 1"
      using "1.IH" [of "fst (before_request retry st)" "snd (before_request retry st)" st2
          "(ev2, nxt)" ev2 nxt retry' useBackup'] h Again
      by simp
    from h Again handle_Again
    have "(useBackup' = useBackup \<and> retry' = retry + 1 \<and> retry < MAX_RETRIES) \<or>
         (\<not> useBackup \<and> useBackup' \<and> retry' = 0)"
      by blast
    with ih h Again show ?thesis
      by (auto simp: fetch_Again handle_quiet [OF h])
  qed
qed

lemma used_eq:
  "used (fetchCryptoData w i retry useBackup st) =
     i + length (attempts (trace (fetchCryptoData w i retry useBackup st)))"
proof (induction w i retry useBackup st rule: fetchCryptoData.induct)
  case (1 w i retry useBackup st)
  obtain st2 ev2 nxt where h:
    "handle retry useBackup (dates w i) (responses w i) (fst (before_request retry st)) =
     (st2, ev2, nxt)"
    by (metis prod_cases3)
  show ?case
  proof (cases nxt)
    case (Settled s)
    with h show ?thesis
      by (simp add: fetch_Settled handle_quiet [OF h])
  next
    case (Again retry' useBackup')
    have "used (fetchCryptoData w (Suc i) retry' useBackup' st2) =
       Suc i + length (attempts (trace (fetchCryptoData w (Suc i) retry' useBackup' st2)))"
      using "1.IH" [of "fst (before_request retry st)" "snd (before_request retry st)" st2
          "(ev2, nxt)" ev2 nxt retry' useBackup'] h Again
      by simp
    with h Again show ?thesis
      by (simp add: fetch_Again handle_quiet [OF h])
  qed
qed


lemma succeeded_state:
  "final (fetchCryptoData w i retry useBackup st) = Succeeded \<Longrightarrow>
   (\<exists>status data.
       responses w (used (fetchCryptoData w i retry useBackup st) - 1) =
         Response status (JsonArray data) \<and>
       data \<noteq> [] \<and> cryptocurrencies (ui (fetchCryptoData w i retry useBackup st)) = data) \<and>
   error (ui (fetchCryptoData w i retry useBackup st)) = None \<and>
   lastUpdateTime (ui (fetchCryptoData w i retry useBackup st)) =
     Some (dates w (used (fetchCryptoData w i retry useBackup st) - 1)) \<and>
   isUsingBackupAPI (ui (fetchCryptoData w i retry useBackup st)) =
     endpoint (fetchCryptoData w i retry useBackup st)"
proof (induction w i retry useBackup st rule: fetchCryptoData.induct)
  case (1 w i retry useBackup st)
  obtain st2 ev2 nxt where h:
    "handle retry useBackup (dates w i) (responses w i) (fst (before_request retry st)) =
     (st2, ev2, nxt)"
    by (metis prod_cases3)
  show ?case
  proof (cases nxt)
    case (Settled s)
    with h "1.prems" have s: "s = Succeeded" by (simp add: fetch_Settled)
    from handle_Succeeded [OF h [unfolded Settled s]] h Settled show ?thesis
      by (auto simp: fetch_Settled)
  next
    case (Again retry' useBackup')
    from h Again "1.prems"
    have "final (fetchCryptoData w (Suc i) retry' useBackup' st2) = Succeeded"
      by (simp add: fetch_Again)
    from "1.IH" [of "fst (before_request retry st)" "snd (before_request retry st)" st2
        "(ev2, nxt)" ev2 nxt retry' useBackup', OF _ _ _ _ this] h Again
    show ?thesis
      by (simp add: fetch_Again)
  qed
qed

lemma failed_state:
  "final (fetchCryptoData w i retry useBackup st) = Failed m \<Longrightarrow>
   cryptocurrencies (ui (fetchCryptoData w i retry useBackup st)) = cryptocurrencies st \<and>
   lastUpdateTime (ui (fetchCryptoData w i retry useBackup st)) = lastUpdateTime st \<and>
   error (ui (fetchCryptoData w i retry useBackup st)) = Some m"
proof (induction w i retry useBackup st rule: fetchCryptoData.induct)
  case (1 w i retry useBackup st)
  obtain st2 ev2 nxt where h:
    "handle retry useBackup (dates w i) (responses w i) (fst (before_request retry st)) =
     (st2, ev2, nxt)"
    by (metis prod_cases3)
  show ?case
  proof (cases nxt)
    case (Settled s)
    with h "1.prems" have s: "s = Failed m" by (simp add: fetch_Settled)
    from handle_Failed [OF h [unfolded Settled s]] h Settled show ?thesis
      by (simp add: fetch_Settled)
  next
    case (Again retry' useBackup')
    from h Again "1.prems"
    have "final (fetchCryptoData w (Suc i) retry' useBackup' st2) = Failed m"
      by (simp add: fetch_Again)
    from "1.IH" [of "fst (before_request retry st)" "snd (before_request retry st)" st2
        "(ev2, nxt)" ev2 nxt retry' useBackup', OF _ _ _ _ this] h Again
      handle_Again_data [OF h [unfolded Again]]
    show ?thesis
      by (simp add: fetch_Again)
  qed
qed

section \<open>Substrings\<close>



lemma includes_str_empty [simp]: "includes_str s []"
  by (induction s) simp_all

section \<open>Letter case\<close>











section \<open>The claims\<close>

subsection \<open>C1: a 404 response\<close>

text \<open>
  C1 as stated: a NotFound outcome (HTTP 404) ends the cycle as Failed on the next
  transition, with no further retry. This fails on the code. The message thrown for a
  404 is not matched by \<open>noRetryErrors\<close>, so the \<open>catch\<close> block retries. Here the first
  request of a cycle gets a 404, the cycle sleeps 2000 ms, asks again, and settles as
  Succeeded.
\<close>

theorem not_found_terminates_counterexample:
  "final (fetchCryptoData
            (first_then (Response 404 JsonOther) (Response 200 (JsonArray [sample_asset])))
            0 0 False initial_state) = Succeeded \<and>
   trace (fetchCryptoData
            (first_then (Response 404 JsonOther) (Response 200 (JsonArray [sample_asset])))
            0 0 False initial_state) = [Fetch False 0, Sleep 2000, Fetch False 1]"
  by (simp add: run_simps)

text \<open>
  C1 as amended: for every attempt index and every endpoint selection, a 404 response is
  retried on the same endpoint with the index incremented as long as the index is below
  \<open>MAX_RETRIES\<close>; from \<open>MAX_RETRIES\<close> on, the cycle ends as Failed with the message
  "The requested data is not available." on that very transition.
\<close>

theorem not_found_retried_until_max:
  "snd (snd (handle retry useBackup now (Response 404 b) st)) =
     (if retry < MAX_RETRIES then Again (retry + 1) useBackup
      else Settled (Failed ''The requested data is not available.''))"
  by (simp add: handle_404)

text \<open>C1, the amended statement at the attempt indices 2 and 5 on the backup.\<close>

theorem not_found_retried_until_max_witness:
  "snd (snd (handle 2 True 0 (Response 404 JsonOther) initial_state)) = Again 3 True \<and>
   snd (snd (handle 5 True 0 (Response 404 JsonOther) initial_state)) =
     Settled (Failed ''The requested data is not available.'')"
  using not_found_retried_until_max [of 2 True 0 JsonOther initial_state]
    not_found_retried_until_max [of 5 True 0 JsonOther initial_state]
  by (simp add: MAX_RETRIES_def)

subsection \<open>C2: the wait after a 429 response\<close>

text \<open>
  C2 as stated: a retry triggered by a RateLimited outcome (HTTP 429) waits exactly the
  fixed 5 seconds, with no exponential component. This fails on the code: after
  \<open>sleep(5000)\<close> the recursive call has \<open>retry > 0\<close> and sleeps its own backoff delay
  before it makes the request. Here the first retry is made 7000 ms after the 429.
\<close>

theorem rate_limit_fixed_delay_counterexample:
  "waits (trace (fetchCryptoData
            (first_then (Response 429 JsonOther) (Response 200 (JsonArray [sample_asset])))
            0 0 False initial_state)) = [0, 7000]"
  by (simp add: run_simps waits_def)

text \<open>
  C2 as amended: for every retry index \<open>k\<close> with \<open>1 \<le> k \<le> MAX_RETRIES\<close>, a retry
  triggered by a 429 response waits the fixed 5000 ms and then the backoff delay
  \<open>INITIAL_RETRY_DELAY * 2 ^ (k - 1)\<close> of retry \<open>k\<close>, and is made on the same endpoint.
\<close>

theorem rate_limit_retry_wait:
  assumes "1 \<le> k" and "k \<le> MAX_RETRIES" and "responses w i = Response 429 b"
  shows "\<exists>rest. trace (fetchCryptoData w i (k - 1) useBackup st) =
     snd (before_request (k - 1) st) @
     [Fetch useBackup (k - 1), Sleep 5000, Sleep (INITIAL_RETRY_DELAY * 2 ^ (k - 1)),
      Fetch useBackup k] @ rest"
proof -
  from assms have lt: "k - 1 < MAX_RETRIES" and k: "k - 1 + 1 = k" by simp_all
  from trace_retry [of "k - 1" useBackup w i st _ "[Sleep 5000]"] handle_429 [OF lt] assms(3) k
  show ?thesis by simp
qed

text \<open>C2, the amended statement for the first retry of a cycle on the primary.\<close>

theorem rate_limit_retry_wait_witness:
  "(1::nat) \<le> 1 \<and> 1 \<le> MAX_RETRIES \<and>
   responses (first_then (Response 429 JsonOther) (Response 200 (JsonArray [sample_asset]))) 0 =
     Response 429 JsonOther \<and>
   (\<exists>rest. trace (fetchCryptoData
               (first_then (Response 429 JsonOther) (Response 200 (JsonArray [sample_asset])))
               0 0 False initial_state) =
            [Fetch False 0, Sleep 5000, Sleep 2000, Fetch False 1] @ rest)"
proof -
  have a: "(1::nat) \<le> 1" by simp
  have b: "1 \<le> MAX_RETRIES" by (simp add: MAX_RETRIES_def)
  have c: "responses (first_then (Response 429 JsonOther) (Response 200 (JsonArray [sample_asset]))) 0 =
      Response 429 JsonOther"
    by (simp add: first_then_def)
  show ?thesis
    using a b c rate_limit_retry_wait [OF a b c, of False initial_state]
    by (simp add: before_request_def INITIAL_RETRY_DELAY_def)
qed

subsection \<open>C3: an empty array\<close>

text \<open>
  C3 as stated: a 2xx response whose body is an empty sequence ends the cycle as Failed
  at once, with zero retries. This fails on the code: the message thrown for an empty
  array is "No cryptocurrency data available", which \<open>noRetryErrors\<close> does not match.
  Here every response is a 200 with \<open>[]\<close>: the cycle makes six requests, five of them
  retries, before it fails.
\<close>

theorem empty_body_zero_retries_counterexample:
  "attempts (trace (fetchCryptoData
      (first_then (Response 200 (JsonArray [])) (Response 200 (JsonArray [])))
      0 0 False initial_state)) = [0, 1, 2, 3, 4, 5] \<and>
   final (fetchCryptoData
      (first_then (Response 200 (JsonArray [])) (Response 200 (JsonArray [])))
      0 0 False initial_state) = Failed ''No cryptocurrency data available''"
  by (simp add: run_simps)

text \<open>
  C3 as amended: a 2xx response whose body is an empty sequence is retried on the same
  endpoint with the index incremented as long as the index is below \<open>MAX_RETRIES\<close>;
  from \<open>MAX_RETRIES\<close> on, the cycle ends as Failed with the message
  "No cryptocurrency data available".
\<close>

theorem empty_body_retried_until_max:
  assumes "ok status"
  shows "snd (snd (handle retry useBackup now (Response status (JsonArray [])) st)) =
     (if retry < MAX_RETRIES then Again (retry + 1) useBackup
      else Settled (Failed ''No cryptocurrency data available''))"
  using assms by (simp add: handle_empty)

text \<open>C3, the amended statement for status 200 at the attempt indices 0 and 5.\<close>

theorem empty_body_retried_until_max_witness:
  "ok 200 \<and>
   snd (snd (handle 0 False 0 (Response 200 (JsonArray [])) initial_state)) = Again 1 False \<and>
   snd (snd (handle 5 False 0 (Response 200 (JsonArray [])) initial_state)) =
     Settled (Failed ''No cryptocurrency data available'')"
proof -
  have h: "ok 200" by (simp add: ok_def)
  show ?thesis
    using h empty_body_retried_until_max [OF h, of 0 False 0 initial_state]
      empty_body_retried_until_max [OF h, of 5 False 0 initial_state]
    by (simp add: MAX_RETRIES_def)
qed

subsection \<open>C5: the attempt count is bounded\<close>

text \<open>
  C5: in every cycle, whatever the outcomes are, the attempt count (the \<open>retry\<close>
  argument of each invocation) never exceeds \<open>MAX_RETRIES\<close>, and the cycle settles: it
  uses at most \<open>2 * (MAX_RETRIES + 1)\<close> requests, the attempts 0 to \<open>MAX_RETRIES\<close> on
  the primary and again on the backup.
\<close>

theorem attempt_count_bounded:
  assumes "retry \<le> MAX_RETRIES"
  shows "(\<forall>n \<in> set (attempts (trace (fetchCryptoData w i retry useBackup st))). n \<le> MAX_RETRIES) \<and>
         used (fetchCryptoData w i retry useBackup st) \<le> i + 2 * (MAX_RETRIES + 1)"
proof -
  have "length (attempts (trace (fetchCryptoData w i retry useBackup st))) \<le> 2 * (MAX_RETRIES + 1)"
    using attempts_length [of w i retry useBackup st] by (simp split: if_splits)
  then show ?thesis
    using attempts_le [OF assms] by (simp add: used_eq)
qed

text \<open>C5 for a cycle that starts at attempt 0 and only ever sees status 500.\<close>

theorem attempt_count_bounded_witness:
  "(0::nat) \<le> MAX_RETRIES \<and>
   list_all (\<lambda>n. n \<le> MAX_RETRIES)
     (attempts (trace (fetchCryptoData
        (first_then (Response 500 JsonOther) (Response 500 JsonOther)) 0 0 False initial_state))) \<and>
   used (fetchCryptoData
        (first_then (Response 500 JsonOther) (Response 500 JsonOther)) 0 0 False initial_state) \<le> 12"
  using attempt_count_bounded
    [of 0 "first_then (Response 500 JsonOther) (Response 500 JsonOther)" 0 False initial_state]
  by (simp add: list_all_iff MAX_RETRIES_def)

subsection \<open>C6: the endpoint selection\<close>




subsection \<open>C7: transient failures\<close>

text \<open>
  C7 as stated: every transient outcome below \<open>MAX_RETRIES\<close> is retried after the
  backoff delay. This fails on the code: the message of such a response is taken from
  the \<open>error\<close> member of its body, and the \<open>catch\<close> block does not retry a message
  that contains one of the phrases of \<open>noRetryErrors\<close>. Here a first response with
  status 500 and the error text "Invalid data" ends the cycle at once.
\<close>

theorem transient_always_retried_counterexample:
  "snd (snd (handle 0 False 0 (Response 500 (JsonObject (Some ''Invalid data''))) initial_state)) =
     Settled (Failed ''Invalid data'')"
  by (simp add: run_simps)

text \<open>
  C7 as amended: for every transient outcome (a status that is not 2xx, 429, 403 or 404)
  at attempt count \<open>n\<close> whose message contains none of the phrases of
  \<open>noRetryErrors\<close>: if \<open>n < MAX_RETRIES\<close>, the next request is retry \<open>n + 1\<close> on the
  same endpoint, made after a wait of exactly \<open>INITIAL_RETRY_DELAY * 2 ^ n\<close> (the base
  delay for the first retry, doubled for each further one); if \<open>n = MAX_RETRIES\<close>, the
  cycle ends as Failed with the message of the outcome and no further request.
\<close>

theorem transient_backoff:
  assumes "\<not> ok status" and "status \<noteq> 429" and "status \<noteq> 403" and "status \<noteq> 404"
    and "responses w i = Response status b"
    and "\<forall>e \<in> set noRetryErrors. \<not> includes_str (http_error_message status b) e"
  shows "(n < MAX_RETRIES \<longrightarrow>
            (\<exists>rest. trace (fetchCryptoData w i n useBackup st) =
               snd (before_request n st) @
               [Fetch useBackup n, Sleep (INITIAL_RETRY_DELAY * 2 ^ n), Fetch useBackup (n + 1)] @
               rest)) \<and>
         (n = MAX_RETRIES \<longrightarrow>
            final (fetchCryptoData w i n useBackup st) = Failed (http_error_message status b) \<and>
            trace (fetchCryptoData w i n useBackup st) =
              snd (before_request n st) @ [Fetch useBackup n])"
proof -
  let ?m = "http_error_message status b"
  let ?st1 = "fst (before_request n st)"
  have h: "handle n useBackup (dates w i) (responses w i) ?st1 =
     (if n < MAX_RETRIES
      then (?st1\<lparr>error := Some ?m, loading := False, retryCount := n + 1\<rparr>, [],
            Again (n + 1) useBackup)
      else (?st1\<lparr>error := Some ?m, loading := False\<rparr>, [], Settled (Failed ?m)))"
    using assms by (simp add: handle_other_status report_error_retry)
  show ?thesis
  proof (cases "n < MAX_RETRIES")
    case True
    with h have "handle n useBackup (dates w i) (responses w i) ?st1 =
      (?st1\<lparr>error := Some ?m, loading := False, retryCount := n + 1\<rparr>, [],
       Again (n + 1) useBackup)"
      by simp
    from trace_retry [OF this] True show ?thesis by simp
  next
    case False
    with h have "handle n useBackup (dates w i) (responses w i) ?st1 =
      (?st1\<lparr>error := Some ?m, loading := False\<rparr>, [], Settled (Failed ?m))"
      by simp
    from fetch_Settled [OF this] False show ?thesis by auto
  qed
qed

text \<open>
  C7, the amended statement for status 500 with a body that carries no error text, at
  the attempt counts 0 and 5.
\<close>

theorem transient_backoff_witness:
  "\<not> ok 500 \<and>
   responses (first_then (Response 500 JsonOther) (Response 500 JsonOther)) 0 =
     Response 500 JsonOther \<and>
   \<not> list_ex (includes_str (http_error_message 500 JsonOther)) noRetryErrors \<and>
   (\<exists>rest. trace (fetchCryptoData
               (first_then (Response 500 JsonOther) (Response 500 JsonOther)) 0 0 False initial_state) =
            [Fetch False 0, Sleep 2000, Fetch False 1] @ rest) \<and>
   final (fetchCryptoData
            (first_then (Response 500 JsonOther) (Response 500 JsonOther)) 0 5 False initial_state) =
     Failed ''HTTP error! status: 500''"
proof -
  let ?w = "first_then (Response 500 JsonOther) (Response 500 JsonOther)"
  have m: "http_error_message 500 JsonOther = ''HTTP error! status: 500''"
    by (simp add: http_error_message_def show_nat.simps digit_def)
  have a: "\<not> ok 500" by (simp add: ok_def)
  have b: "responses ?w 0 = Response 500 JsonOther"
    by (simp add: first_then_def)
  have c: "\<forall>e \<in> set noRetryErrors. \<not> includes_str (http_error_message 500 JsonOther) e"
    unfolding m by (simp add: noRetryErrors_def)
  show ?thesis
    using a b c
      transient_backoff [OF a _ _ _ b c, of 0 False initial_state]
      transient_backoff [OF a _ _ _ b c, of 5 False initial_state]
    by (simp add: m MAX_RETRIES_def INITIAL_RETRY_DELAY_def before_request_def list_ex_iff)
qed

subsection \<open>C8: what a settled cycle leaves in the state\<close>

text \<open>
  C8: a cycle that settles as Failed leaves the dataset (and the time of its last
  update) as it found them, whatever an earlier cycle stored there, and sets the error
  to its final message. A cycle that settles as Succeeded replaces the dataset by the
  non-empty array of the response that settled it, clears the error, and records the
  clock reading and the endpoint that served it.
\<close>

theorem dataset_store:
  "(final (fetchCryptoData w i retry useBackup st) = Failed m \<longrightarrow>
      cryptocurrencies (ui (fetchCryptoData w i retry useBackup st)) = cryptocurrencies st \<and>
      lastUpdateTime (ui (fetchCryptoData w i retry useBackup st)) = lastUpdateTime st \<and>
      error (ui (fetchCryptoData w i retry useBackup st)) = Some m) \<and>
   (final (fetchCryptoData w i retry useBackup st) = Succeeded \<longrightarrow>
      (\<exists>status data.
          responses w (used (fetchCryptoData w i retry useBackup st) - 1) =
            Response status (JsonArray data) \<and>
          data \<noteq> [] \<and> cryptocurrencies (ui (fetchCryptoData w i retry useBackup st)) = data) \<and>
      error (ui (fetchCryptoData w i retry useBackup st)) = None \<and>
      lastUpdateTime (ui (fetchCryptoData w i retry useBackup st)) =
        Some (dates w (used (fetchCryptoData w i retry useBackup st) - 1)) \<and>
      isUsingBackupAPI (ui (fetchCryptoData w i retry useBackup st)) =
        endpoint (fetchCryptoData w i retry useBackup st))"
  using failed_state [of w i retry useBackup st m] succeeded_state [of w i retry useBackup st]
  by blast

text \<open>
  C8 for two cycles in a row: the first stores the sample entry, the second gets 403 from
  both endpoints and fails; the sample entry is still there, next to the error.
\<close>

theorem dataset_store_witness:
  "final (fetchCryptoData
      (first_then (Response 200 (JsonArray [sample_asset])) (Response 403 JsonOther))
      0 0 False initial_state) = Succeeded \<and>
   cryptocurrencies (ui (fetchCryptoData
      (first_then (Response 200 (JsonArray [sample_asset])) (Response 403 JsonOther))
      0 0 False initial_state)) = [sample_asset] \<and>
   error (ui (fetchCryptoData
      (first_then (Response 200 (JsonArray [sample_asset])) (Response 403 JsonOther))
      0 0 False initial_state)) = None \<and>
   final (fetchCryptoData
      (first_then (Response 200 (JsonArray [sample_asset])) (Response 403 JsonOther)) 1 0 False
      (ui (fetchCryptoData
        (first_then (Response 200 (JsonArray [sample_asset])) (Response 403 JsonOther))
        0 0 False initial_state))) =
     Failed ''Access denied. Please check your API permissions.'' \<and>
   cryptocurrencies (ui (fetchCryptoData
      (first_then (Response 200 (JsonArray [sample_asset])) (Response 403 JsonOther)) 1 0 False
      (ui (fetchCryptoData
        (first_then (Response 200 (JsonArray [sample_asset])) (Response 403 JsonOther))
        0 0 False initial_state)))) = [sample_asset] \<and>
   error (ui (fetchCryptoData
      (first_then (Response 200 (JsonArray [sample_asset])) (Response 403 JsonOther)) 1 0 False
      (ui (fetchCryptoData
        (first_then (Response 200 (JsonArray [sample_asset])) (Response 403 JsonOther))
        0 0 False initial_state)))) =
     Some ''Access denied. Please check your API permissions.''"
proof -
  let ?w = "first_then (Response 200 (JsonArray [sample_asset])) (Response 403 JsonOther)"
  let ?c1 = "fetchCryptoData ?w 0 0 False initial_state"
  let ?c2 = "fetchCryptoData ?w 1 0 False (ui ?c1)"
  have f1: "final ?c1 = Succeeded"
    by (simp add: run_simps)
  have d1: "cryptocurrencies (ui ?c1) = [sample_asset]"
    by (simp add: run_simps)
  have f2: "final ?c2 = Failed ''Access denied. Please check your API permissions.''"
    by (simp add: run_simps)
  show ?thesis
    using f1 d1 f2 dataset_store [of ?w 0 0 False initial_state]
      dataset_store [of ?w 1 0 False "ui ?c1" "''Access denied. Please check your API permissions.''"]
    by simp
qed

subsection \<open>C9: toggling the watchlist\<close>

text \<open>
  C9: \<open>toggleWatchlist(id)\<close> changes the membership of \<open>id\<close> in the watchlist (it
  is added if absent and removed if present) and of no other identifier; toggling the
  same identifier twice gives back a watchlist with the members it had at first.
\<close>

theorem toggleWatchlist_membership:
  "(id' \<in> set (watchlist (toggleWatchlist id' ws)) \<longleftrightarrow> id' \<notin> set (watchlist ws)) \<and>
   (\<forall>other. other \<noteq> id' \<longrightarrow>
      (other \<in> set (watchlist (toggleWatchlist id' ws)) \<longleftrightarrow> other \<in> set (watchlist ws))) \<and>
   set (watchlist (toggleWatchlist id' (toggleWatchlist id' ws))) = set (watchlist ws)"
  by (auto simp: toggleWatchlist_def Let_def)

text \<open>C9 for the watchlist of \<open>btc\<close> and \<open>eth\<close>, toggling \<open>btc\<close>.\<close>

theorem toggleWatchlist_membership_witness:
  "''eth'' \<noteq> ''btc'' \<and>
   ''btc'' \<notin> set (watchlist (toggleWatchlist ''btc'' \<lparr>watchlist = [''btc'', ''eth''], stored = None\<rparr>)) \<and>
   ''eth'' \<in> set (watchlist (toggleWatchlist ''btc'' \<lparr>watchlist = [''btc'', ''eth''], stored = None\<rparr>)) \<and>
   set (watchlist (toggleWatchlist ''btc''
          (toggleWatchlist ''btc'' \<lparr>watchlist = [''btc'', ''eth''], stored = None\<rparr>))) =
     {''btc'', ''eth''}"
  using toggleWatchlist_membership [of "''btc''" "\<lparr>watchlist = [''btc'', ''eth''], stored = None\<rparr>"]
  by auto

subsection \<open>C10: the search filter\<close>



end
